theory Spec2Isabelle
  imports Main "HOL-Library.Multiset"
begin

section \<open>Policy engine (package policy)\<close>

text \<open>
  Go strings are byte sequences; they are modelled as \<^typ>\<open>string\<close>, one \<^typ>\<open>char\<close>
  per byte. \<open>config.PolicyConfig\<close> carries the five pattern lists, \<open>Policy\<close> pairs it
  with the safe-mode flag.
\<close>

datatype Decision = Allow | Deny | Confirm

record PolicyConfig =
  AllowModules :: "string list"
  DenyModules :: "string list"
  AllowTools :: "string list"
  DenyTools :: "string list"
  ConfirmTools :: "string list"

record Policy =
  cfg :: PolicyConfig
  safeMode :: bool

definition New :: "PolicyConfig \<Rightarrow> bool \<Rightarrow> Policy" where
  "New c sm = \<lparr>cfg = c, safeMode = sm\<rparr>"

text \<open>
  \<open>strings.ToLower\<close>: on a string of ASCII bytes the library adds \<open>'a' - 'A'\<close> to every
  byte in \<open>'A'..'Z'\<close> and leaves the others alone. The model applies that byte map to
  every byte (the Unicode case mapping the library applies to multi-byte runes is not
  modelled).
\<close>

definition lower_byte :: "char \<Rightarrow> char" where
  "lower_byte c =
     (if 65 \<le> (of_char c :: nat) \<and> (of_char c :: nat) \<le> 90
      then char_of (of_char c + (32 :: nat)) else c)"

definition ToLower :: "string \<Rightarrow> string" where
  "ToLower s = map lower_byte s"

text \<open>\<open>strings.HasPrefix\<close> and \<open>strings.Contains\<close> (substring search on bytes).\<close>

fun HasPrefix :: "string \<Rightarrow> string \<Rightarrow> bool" where
  "HasPrefix s [] = True"
| "HasPrefix [] (p # ps) = False"
| "HasPrefix (c # cs) (p # ps) = (c = p \<and> HasPrefix cs ps)"

fun Contains :: "string \<Rightarrow> string \<Rightarrow> bool" where
  "Contains [] sub = (sub = [])"
| "Contains (c # cs) sub = (HasPrefix (c # cs) sub \<or> Contains cs sub)"

definition sensitive :: "string list" where
  "sensitive = [''delete'', ''update'', ''scale'', ''write'', ''create'', ''apply'', ''patch'']"

text \<open>The keyword loop of \<open>isSensitiveTool\<close>: the first keyword found returns true.\<close>

primrec containsKeyword :: "string \<Rightarrow> string list \<Rightarrow> bool" where
  "containsKeyword lower [] = False"
| "containsKeyword lower (keyword # rest) =
     (if Contains lower keyword then True else containsKeyword lower rest)"

definition isSensitiveTool :: "string \<Rightarrow> bool" where
  "isSensitiveTool tool = (let lower = ToLower tool in containsKeyword lower sensitive)"

text \<open>
  \<open>path.Match\<close> belongs to the Go standard library. The policy code only reads its
  \<open>matched\<close> result (the error is discarded with \<open>_\<close>), so the matcher is a parameter
  \<open>Match pattern name\<close> of the model: the boolean \<open>matched\<close> that \<open>path.Match\<close> returns.
\<close>

type_synonym matcher = "string \<Rightarrow> string \<Rightarrow> bool"

primrec matchesAny :: "matcher \<Rightarrow> string list \<Rightarrow> string \<Rightarrow> bool" where
  "matchesAny Match [] v = False"
| "matchesAny Match (pattern # rest) v =
     (if Match pattern v then True else matchesAny Match rest v)"

primrec matchesAnyTool_loop :: "matcher \<Rightarrow> string list \<Rightarrow> string \<Rightarrow> string \<Rightarrow> bool" where
  "matchesAnyTool_loop Match [] tool qualified = False"
| "matchesAnyTool_loop Match (pattern # rest) tool qualified =
     (if Match pattern tool then True
      else if Match pattern qualified then True
      else matchesAnyTool_loop Match rest tool qualified)"

definition matchesAnyTool :: "matcher \<Rightarrow> string list \<Rightarrow> string \<Rightarrow> string \<Rightarrow> bool" where
  "matchesAnyTool Match patterns module tool =
     (let qualified = module @ ''/'' @ tool
      in matchesAnyTool_loop Match patterns tool qualified)"

definition hasAllowList :: "PolicyConfig \<Rightarrow> bool" where
  "hasAllowList c = (length (AllowModules c) > 0 \<or> length (AllowTools c) > 0)"

definition Evaluate :: "matcher \<Rightarrow> Policy \<Rightarrow> string \<Rightarrow> string \<Rightarrow> Decision" where
  "Evaluate Match p module tool =
     (if safeMode p \<and> isSensitiveTool tool then Deny
      else if matchesAny Match (DenyModules (cfg p)) module
              \<or> matchesAnyTool Match (DenyTools (cfg p)) module tool then Deny
      else if hasAllowList (cfg p)
              \<and> \<not> matchesAny Match (AllowModules (cfg p)) module
              \<and> \<not> matchesAnyTool Match (AllowTools (cfg p)) module tool then Deny
      else if matchesAnyTool Match (ConfirmTools (cfg p)) module tool then Confirm
      else Allow)"

text \<open>
  An instance of the matcher parameter for concrete evaluations: on a pattern without
  the metacharacters \<open>*\<close>, \<open>?\<close>, \<open>[\<close> and backslash (byte 0x5C), \<open>path.Match\<close> reports a match exactly when
  pattern and name are equal; patterns with a metacharacter are not interpreted here and
  never match.
\<close>

definition literalMatch :: matcher where
  "literalMatch pattern name =
     (pattern = name \<and> (\<forall>c \<in> set pattern. c \<notin> {CHR ''*'', CHR ''?'', CHR ''['', CHR 0x5C}))"

section \<open>Plugin output trimming (package modules/plugins)\<close>

text \<open>
  \<open>trimOutput\<close>: \<open>maxBytes\<close> is a Go \<open>int\<close>; it is only compared, never computed with, so
  it is modelled as \<^typ>\<open>int\<close>. \<open>len(data)\<close> is the byte length and \<open>data[:maxBytes]\<close> the
  first \<open>maxBytes\<close> bytes (in range, since \<open>0 < maxBytes < len(data)\<close> on that path).
\<close>

definition truncation_marker :: string where
  "truncation_marker = [CHR 0x0A] @ ''... truncated''"

definition trimOutput :: "string \<Rightarrow> int \<Rightarrow> string" where
  "trimOutput output maxBytes =
     (if maxBytes \<le> 0 then output
      else let data = output in
        if int (length data) \<le> maxBytes then output
        else take (nat maxBytes) data @ truncation_marker)"

section \<open>Configuration (package config)\<close>

text \<open>
  The configuration structs of \<open>config.go\<close>. A field name used by several structs
  (\<open>Enabled\<close>, \<open>Name\<close>, \<open>MaxBytes\<close>, ...) carries its struct as a prefix. Go \<open>int\<close>
  fields are only compared with literals, so they are modelled as \<^typ>\<open>int\<close>. Errors are
  their messages.
\<close>

type_synonym error = string

record ServerConfig =
  Server_Name :: string
  Server_Version :: string
  LogLevel :: string
  SafeMode :: bool

record KubernetesConfig =
  Kubernetes_Enabled :: bool
  Kubeconfig :: string

record AWSConfig =
  AWS_Enabled :: bool
  Region :: string

record PrometheusConfig =
  Prometheus_Enabled :: bool
  URL :: string

record LogsConfig =
  Logs_Enabled :: bool
  AllowPaths :: "string list"
  Logs_MaxBytes :: int
  Logs_MaxLines :: int

record DockerConfig =
  Docker_Enabled :: bool
  CLI :: string
  Docker_MaxLines :: int

record PluginsConfig =
  Plugins_Enabled :: bool
  Dir :: string
  Plugins_MaxBytes :: int
  Plugins_Env :: "string list"

record ModulesConfig =
  Kubernetes :: KubernetesConfig
  AWS :: AWSConfig
  Prometheus :: PrometheusConfig
  Logs :: LogsConfig
  Docker :: DockerConfig
  Plugins :: PluginsConfig

record NexusConfig =
  Server :: ServerConfig
  Modules :: ModulesConfig
  Policy :: PolicyConfig

definition DefaultConfig :: NexusConfig where
  "DefaultConfig =
     \<lparr>Server = \<lparr>Server_Name = ''Nexus'', Server_Version = ''v0.0.1'',
                 LogLevel = ''info'', SafeMode = True\<rparr>,
      Modules =
        \<lparr>Kubernetes = \<lparr>Kubernetes_Enabled = True, Kubeconfig = ''~/.kube/config''\<rparr>,
         AWS = \<lparr>AWS_Enabled = False, Region = ''us-east-1''\<rparr>,
         Prometheus = \<lparr>Prometheus_Enabled = False, URL = ''http://localhost:9090''\<rparr>,
         Logs = \<lparr>Logs_Enabled = False, AllowPaths = [], Logs_MaxBytes = 256 * 1024,
                 Logs_MaxLines = 200\<rparr>,
         Docker = \<lparr>Docker_Enabled = False, CLI = ''docker'', Docker_MaxLines = 200\<rparr>,
         Plugins = \<lparr>Plugins_Enabled = False, Dir = ''plugins'', Plugins_MaxBytes = 256 * 1024,
                    Plugins_Env = []\<rparr>\<rparr>,
      Policy = \<lparr>AllowModules = [], DenyModules = [], AllowTools = [], DenyTools = [],
                 ConfirmTools = []\<rparr>\<rparr>"

text \<open>\<open>applyDefaults\<close> mutates the struct field by field; each step is an update.\<close>

definition applyDefaults_Server :: "ServerConfig \<Rightarrow> ServerConfig" where
  "applyDefaults_Server s0 =
     (let s1 = (if Server_Name s0 = [] then s0\<lparr>Server_Name := ''Nexus''\<rparr> else s0);
          s2 = (if Server_Version s1 = [] then s1\<lparr>Server_Version := ''v0.0.1''\<rparr> else s1);
          s3 = (if LogLevel s2 = [] then s2\<lparr>LogLevel := ''info''\<rparr> else s2)
      in s3)"

definition applyDefaults_Logs :: "LogsConfig \<Rightarrow> LogsConfig" where
  "applyDefaults_Logs l0 =
     (let l1 = (if Logs_MaxBytes l0 \<le> 0 then l0\<lparr>Logs_MaxBytes := 256 * 1024\<rparr> else l0);
          l2 = (if Logs_MaxLines l1 \<le> 0 then l1\<lparr>Logs_MaxLines := 200\<rparr> else l1)
      in l2)"

definition applyDefaults_Docker :: "DockerConfig \<Rightarrow> DockerConfig" where
  "applyDefaults_Docker d0 =
     (let d1 = (if CLI d0 = [] then d0\<lparr>CLI := ''docker''\<rparr> else d0);
          d2 = (if Docker_MaxLines d1 \<le> 0 then d1\<lparr>Docker_MaxLines := 200\<rparr> else d1)
      in d2)"

definition applyDefaults_Plugins :: "PluginsConfig \<Rightarrow> PluginsConfig" where
  "applyDefaults_Plugins p0 =
     (let p1 = (if Dir p0 = [] then p0\<lparr>Dir := ''plugins''\<rparr> else p0);
          p2 = (if Plugins_MaxBytes p1 \<le> 0 then p1\<lparr>Plugins_MaxBytes := 256 * 1024\<rparr> else p1)
      in p2)"

definition applyDefaults_Modules :: "ModulesConfig \<Rightarrow> ModulesConfig" where
  "applyDefaults_Modules m =
     m\<lparr>Kubernetes := (if Kubeconfig (Kubernetes m) = []
                       then (Kubernetes m)\<lparr>Kubeconfig := ''~/.kube/config''\<rparr> else Kubernetes m),
       AWS := (if Region (AWS m) = [] then (AWS m)\<lparr>Region := ''us-east-1''\<rparr> else AWS m),
       Prometheus := (if URL (Prometheus m) = []
                       then (Prometheus m)\<lparr>URL := ''http://localhost:9090''\<rparr> else Prometheus m),
       Logs := applyDefaults_Logs (Logs m),
       Docker := applyDefaults_Docker (Docker m),
       Plugins := applyDefaults_Plugins (Plugins m)\<rparr>"

definition applyDefaults :: "NexusConfig \<Rightarrow> NexusConfig" where
  "applyDefaults c =
     c\<lparr>Server := applyDefaults_Server (Server c), Modules := applyDefaults_Modules (Modules c)\<rparr>"

text \<open>
  \<open>LoadConfig\<close> calls \<open>os.ReadFile\<close> and \<open>yaml.Unmarshal(data, cfg)\<close>, both outside the
  repository; they are parameters. \<open>ReadFile path\<close> is the error or the file's bytes.
  \<open>Unmarshal data c\<close> is the struct as the decoder leaves it, started from \<open>c\<close>, with the
  error it returns. The result is the returned pointer (\<open>None\<close> would be \<open>nil\<close>) and the
  returned error.
\<close>

type_synonym reader = "string \<Rightarrow> error + string"
type_synonym config_decoder = "string \<Rightarrow> NexusConfig \<Rightarrow> NexusConfig \<times> error option"

definition LoadConfig ::
  "reader \<Rightarrow> config_decoder \<Rightarrow> string \<Rightarrow> NexusConfig option \<times> error option" where
  "LoadConfig ReadFile Unmarshal path =
     (let c = DefaultConfig in
      case ReadFile path of
        Inl err \<Rightarrow> (Some c, Some err)
      | Inr data \<Rightarrow>
          (case Unmarshal data c of
             (c', Some err) \<Rightarrow> (Some c', Some err)
           | (c', None) \<Rightarrow> (Some (applyDefaults c'), None)))"

section \<open>Module registry (package registry)\<close>

text \<open>
  A provider as the registry sees it through \<open>types.NexusModule\<close>: its name, the optional
  \<open>Enabled\<close> method (\<open>None\<close> when the type assertion in \<open>LoadModules\<close> fails) and the
  error that \<open>Init\<close> returns. Every \<open>Enabled\<close> of the repository reads the configuration
  it is given (or, in the test module, a field that \<open>Init\<close> does not write). The package
  variables are the \<open>modules\<close> map and the \<open>sync.Once\<close>, whose state is its done flag.
\<close>

record NexusModule =
  Name :: string
  Enabled :: "(NexusConfig \<Rightarrow> bool) option"
  Init :: "NexusConfig \<Rightarrow> error option"

record Registry =
  modules :: "string \<rightharpoonup> NexusModule"
  loadOnce :: bool

definition emptyRegistry :: Registry where
  "emptyRegistry = \<lparr>modules = Map.empty, loadOnce = False\<rparr>"

text \<open>
  \<open>Register\<close> returns the package state after the call and the panic message when it
  panicked; the panic is raised before the map is written.
\<close>

definition Register :: "string \<Rightarrow> NexusModule \<Rightarrow> Registry \<Rightarrow> Registry \<times> string option" where
  "Register name module r =
     (case modules r name of
        Some existing \<Rightarrow> (r, Some (''module already registered: '' @ name))
      | None \<Rightarrow> (r\<lparr>modules := (modules r)(name \<mapsto> module)\<rparr>, None))"

definition disabled :: "NexusModule \<Rightarrow> NexusConfig \<Rightarrow> bool" where
  "disabled module c = (case Enabled module of Some toggle \<Rightarrow> \<not> toggle c | None \<Rightarrow> False)"

text \<open>
  A \<open>range\<close> over a Go map visits every key once, in an order the runtime picks. Each
  loop takes that order as a list of keys. The first loop (the body of \<open>loadOnce.Do\<close>)
  returns the names whose \<open>Init\<close> it invoked, in order, and \<open>loadErr\<close>.
\<close>

fun initLoop ::
  "NexusConfig \<Rightarrow> (string \<rightharpoonup> NexusModule) \<Rightarrow> string list \<Rightarrow> string list \<times> error option" where
  "initLoop c ms [] = ([], None)"
| "initLoop c ms (name # rest) =
     (case ms name of
        None \<Rightarrow> initLoop c ms rest
      | Some module \<Rightarrow>
          if disabled module c then initLoop c ms rest
          else (case Init module c of
                  Some err \<Rightarrow> ([name], Some (''failed to init module '' @ name @ '': '' @ err))
                | None \<Rightarrow> (case initLoop c ms rest of (inits, e) \<Rightarrow> (name # inits, e))))"

fun loadedLoop ::
  "NexusConfig \<Rightarrow> (string \<rightharpoonup> NexusModule) \<Rightarrow> string list \<Rightarrow> NexusModule list" where
  "loadedLoop c ms [] = []"
| "loadedLoop c ms (name # rest) =
     (case ms name of
        None \<Rightarrow> loadedLoop c ms rest
      | Some module \<Rightarrow>
          if disabled module c then loadedLoop c ms rest
          else module # loadedLoop c ms rest)"

text \<open>
  \<open>LoadModules order1 order2 c r\<close>: the package state after the call, the names whose
  \<open>Init\<close> this call invoked, and the returned pair as a sum (\<open>Inl\<close> the error, with a
  \<open>nil\<close> slice; \<open>Inr\<close> the loaded slice, with a \<open>nil\<close> error). \<open>loadErr\<close> is a local
  variable: a call that finds the \<open>sync.Once\<close> done starts from \<open>nil\<close>.
\<close>

definition enumerates :: "string list \<Rightarrow> (string \<rightharpoonup> NexusModule) \<Rightarrow> bool" where
  "enumerates order ms = (distinct order \<and> set order = dom ms)"

definition LoadModules ::
  "string list \<Rightarrow> string list \<Rightarrow> NexusConfig \<Rightarrow> Registry
     \<Rightarrow> Registry \<times> string list \<times> (error + NexusModule list)" where
  "LoadModules order1 order2 c r =
     (case (if loadOnce r then ([], None) else initLoop c (modules r) order1) of
        (inits, loadErr) \<Rightarrow>
          (case loadErr of
             Some err \<Rightarrow> (r\<lparr>loadOnce := True\<rparr>, inits, Inl err)
           | None \<Rightarrow> (r\<lparr>loadOnce := True\<rparr>, inits, Inr (loadedLoop c (modules r) order2))))"

section \<open>Plugin manifests and their loader (package plugins)\<close>

record ArgSpec =
  Arg_Name :: string
  Arg_Type :: string
  Required :: bool
  Arg_Description :: string

record ToolSpec =
  Tool_Name :: string
  Tool_Description :: string
  ReadOnly :: bool
  Tool_Args :: "ArgSpec list"

record Capabilities =
  Tools :: "ToolSpec list"

text \<open>\<open>Spec.Env\<close> is a Go map; it is kept as the list of its entries in \<open>range\<close> order.\<close>

record Spec =
  Command :: string
  Args :: "string list"
  Env :: "(string \<times> string) list"
  Capabilities :: Capabilities

record Metadata =
  Metadata_Name :: string
  Vendor :: string
  Metadata_Version :: string
  Metadata_Description :: string

record Manifest =
  APIVersion :: string
  Kind :: string
  Metadata :: Metadata
  Spec :: Spec

definition ManifestName :: string where
  "ManifestName = ''nexus.yaml''"

text \<open>
  The operating system and the libraries the plugin code calls, as a record of
  functions: \<open>os.ReadDir\<close>, \<open>os.ReadFile\<close>, \<open>filepath.Join\<close>, \<open>filepath.IsAbs\<close>,
  \<open>yaml.Unmarshal\<close> into a fresh \<open>Manifest\<close>, \<open>json.Marshal\<close> of the payload
  \<open>{tool, args}\<close>, \<open>cmd.CombinedOutput\<close> (the output and the error of the finished child
  process) and \<open>strings.TrimSpace\<close>. The argument bag of a call has the abstract type
  \<open>'a\<close>.
\<close>

record DirEntry =
  Entry_Name :: string
  IsDir :: bool

record Cmd =
  Path :: string
  Cmd_Args :: "string list"
  Cmd_Env :: "string list"
  Stdin :: string

record 'a Sys =
  ReadDir :: "string \<Rightarrow> error + DirEntry list"
  ReadFile :: "string \<Rightarrow> error + string"
  Join :: "string list \<Rightarrow> string"
  IsAbs :: "string \<Rightarrow> bool"
  Unmarshal_Manifest :: "string \<Rightarrow> error + Manifest"
  Marshal :: "string \<Rightarrow> 'a \<Rightarrow> error + string"
  CombinedOutput :: "Cmd \<Rightarrow> string \<times> error option"
  TrimSpace :: "string \<Rightarrow> string"

fun loadLoop ::
  "'a Sys \<Rightarrow> string \<Rightarrow> DirEntry list \<Rightarrow> Manifest list \<Rightarrow> error + Manifest list" where
  "loadLoop sys dir [] manifests = Inr manifests"
| "loadLoop sys dir (entry # rest) manifests =
     (if \<not> IsDir entry then loadLoop sys dir rest manifests
      else
        let path = Join sys [dir, Entry_Name entry, ManifestName] in
        case ReadFile sys path of
          Inl err \<Rightarrow> loadLoop sys dir rest manifests
        | Inr data \<Rightarrow>
            (case Unmarshal_Manifest sys data of
               Inl err \<Rightarrow> Inl (''failed to parse '' @ path @ '': '' @ err)
             | Inr manifest \<Rightarrow>
                 let manifest' =
                   (if Metadata_Name (Metadata manifest) = []
                    then manifest\<lparr>Metadata := (Metadata manifest)\<lparr>Metadata_Name := Entry_Name entry\<rparr>\<rparr>
                    else manifest)
                 in loadLoop sys dir rest (manifests @ [manifest'])))"

definition LoadManifests :: "'a Sys \<Rightarrow> string \<Rightarrow> error + Manifest list" where
  "LoadManifests sys dir =
     (case ReadDir sys dir of
        Inl err \<Rightarrow> Inl err
      | Inr entries \<Rightarrow> loadLoop sys dir entries [])"

section \<open>Plugin provider (package modules/plugins)\<close>

text \<open>
  The provider's state: the configuration pointer (\<open>None\<close> is \<open>nil\<close>), the manifests and
  the tool table. \<open>slog\<close> calls are returned as a list of log records (level and
  message).
\<close>

record pluginTool =
  manifest :: Manifest
  tool :: ToolSpec

record Module =
  Module_cfg :: "NexusConfig option"
  manifests :: "Manifest list"
  tools :: "string \<rightharpoonup> pluginTool"

datatype LogRecord = Info string | Warn string

datatype CallToolResult = ToolResultError string | ToolResultText string

text \<open>
  What a call of \<open>HandleCall\<close> ends in: a run-time panic (the \<open>nil\<close> configuration
  pointer dereferenced), a returned Go error, or a returned tool result.
\<close>

datatype CallOutcome = Panic | Failed error | Returned CallToolResult

definition Module_New :: Module where
  "Module_New = \<lparr>Module_cfg = None, manifests = [], tools = Map.empty\<rparr>"

definition moduleName :: string where
  "moduleName = ''plugins''"

definition pluginToolName :: "string \<Rightarrow> string \<Rightarrow> string" where
  "pluginToolName pluginName toolName = ''plugin/'' @ pluginName @ ''/'' @ toolName"

text \<open>
  The two nested loops of \<open>Init\<close>. A duplicate name returns at once, with the table as
  filled so far.
\<close>

fun addTools ::
  "Manifest \<Rightarrow> ToolSpec list \<Rightarrow> (string \<rightharpoonup> pluginTool) \<Rightarrow> (string \<rightharpoonup> pluginTool) \<times> error option" where
  "addTools mf [] tbl = (tbl, None)"
| "addTools mf (t # rest) tbl =
     (let fullName = pluginToolName (Metadata_Name (Metadata mf)) (Tool_Name t) in
      case tbl fullName of
        Some existing \<Rightarrow> (tbl, Some (''duplicate plugin tool name: '' @ fullName))
      | None \<Rightarrow> addTools mf rest (tbl(fullName \<mapsto> \<lparr>manifest = mf, tool = t\<rparr>)))"

fun addManifests ::
  "Manifest list \<Rightarrow> (string \<rightharpoonup> pluginTool) \<Rightarrow> (string \<rightharpoonup> pluginTool) \<times> error option" where
  "addManifests [] tbl = (tbl, None)"
| "addManifests (mf # rest) tbl =
     (case addTools mf (Tools (Capabilities (Spec mf))) tbl of
        (tbl', Some err) \<Rightarrow> (tbl', Some err)
      | (tbl', None) \<Rightarrow> addManifests rest tbl')"

text \<open>
  \<open>Module.Init\<close> returns the provider after the call, the returned error (\<open>None\<close> is
  \<open>nil\<close>) and the log records written.
\<close>

definition Module_Init ::
  "'a Sys \<Rightarrow> NexusConfig \<Rightarrow> Module \<Rightarrow> Module \<times> error option \<times> LogRecord list" where
  "Module_Init sys c m0 =
     (let m1 = m0\<lparr>Module_cfg := Some c\<rparr> in
      if \<not> Plugins_Enabled (Plugins (Modules c))
      then (m1, None, [Info ''plugins module disabled by config''])
      else
        case LoadManifests sys (Dir (Plugins (Modules c))) of
          Inl err \<Rightarrow> (m1, None, [Warn ''failed to load plugin manifests''])
        | Inr loaded \<Rightarrow>
            (let m2 = m1\<lparr>manifests := loaded\<rparr> in
             case addManifests loaded (tools m2) of
               (tbl, e) \<Rightarrow> (m2\<lparr>tools := tbl\<rparr>, e, [])))"

definition Module_Enabled :: "NexusConfig \<Rightarrow> bool" where
  "Module_Enabled c = Plugins_Enabled (Plugins (Modules c))"

text \<open>
  \<open>Module.HandleCall\<close> returns the child processes it started (none or one) and how the
  call ends. The cancellation context is not modelled.
\<close>

definition buildCmd :: "'a Sys \<Rightarrow> NexusConfig \<Rightarrow> pluginTool \<Rightarrow> string \<Rightarrow> string \<Rightarrow> Cmd" where
  "buildCmd sys c pt cmdPath0 data =
     (let cmdPath =
            (if \<not> IsAbs sys cmdPath0
             then Join sys [Dir (Plugins (Modules c)), Metadata_Name (Metadata (manifest pt)), cmdPath0]
             else cmdPath0);
          cmdArgs = Args (Spec (manifest pt)) @ [''--nexus-plugin''];
          env = Plugins_Env (Plugins (Modules c))
                  @ map (\<lambda>(key, val). key @ ''='' @ val) (Env (Spec (manifest pt)))
      in \<lparr>Path = cmdPath, Cmd_Args = cmdArgs, Cmd_Env = env, Stdin = data\<rparr>)"

definition Module_HandleCall ::
  "'a Sys \<Rightarrow> Module \<Rightarrow> string \<Rightarrow> 'a \<Rightarrow> Cmd list \<times> CallOutcome" where
  "Module_HandleCall sys m name args =
     (case Module_cfg m of
        None \<Rightarrow> ([], Panic)
      | Some c \<Rightarrow>
         (if \<not> Plugins_Enabled (Plugins (Modules c))
          then ([], Returned (ToolResultError ''plugins module is disabled''))
          else
           (case tools m name of
              None \<Rightarrow> ([], Returned (ToolResultError (''unknown tool: '' @ name)))
            | Some pt \<Rightarrow>
               (if SafeMode (Server c) \<and> \<not> ReadOnly (tool pt)
                then ([], Returned (ToolResultError ''tool blocked in safe mode''))
                else
                 (case Marshal sys (Tool_Name (tool pt)) args of
                    Inl err \<Rightarrow> ([], Failed (''failed to marshal plugin input: '' @ err))
                  | Inr data \<Rightarrow>
                     (if Command (Spec (manifest pt)) = []
                      then ([], Returned (ToolResultError ''plugin command not configured''))
                      else
                       (let cmd = buildCmd sys c pt (Command (Spec (manifest pt))) data in
                        (case CombinedOutput sys cmd of
                           (output, Some err) \<Rightarrow>
                             ([cmd], Returned (ToolResultError
                                (''plugin error: '' @ err @ '': '' @ TrimSpace sys output)))
                         | (output, None) \<Rightarrow>
                             ([cmd], Returned (ToolResultText
                                (trimOutput output (Plugins_MaxBytes (Plugins (Modules c))))))))))))))"

section \<open>Concrete inputs\<close>

text \<open>
  The module of \<open>registry_test.go\<close> (its \<open>Enabled\<close> returns the field \<open>enabled\<close>, its
  \<open>Init\<close> returns \<open>nil\<close>), three further providers and two registries built with
  \<open>Register\<close>. \<open>failingModule\<close> behaves as the plugin provider does when two tools of
  its manifests share a qualified name.
\<close>

definition testModule :: "bool \<Rightarrow> NexusModule" where
  "testModule en = \<lparr>Name = ''test'', Enabled = Some (\<lambda>c. en), Init = (\<lambda>c. None)\<rparr>"

definition failingModule :: NexusModule where
  "failingModule = \<lparr>Name = ''plugins'', Enabled = Some Module_Enabled,
                     Init = (\<lambda>c. Some ''duplicate plugin tool name: plugin/demo/restart'')\<rparr>"

definition okModule :: NexusModule where
  "okModule = \<lparr>Name = ''prometheus'', Enabled = Some (\<lambda>c. True), Init = (\<lambda>c. None)\<rparr>"

definition offModule :: NexusModule where
  "offModule = \<lparr>Name = ''logs'', Enabled = Some (\<lambda>c. Logs_Enabled (Logs (Modules c))),
                 Init = (\<lambda>c. None)\<rparr>"

definition goodRegistry :: Registry where
  "goodRegistry =
     fst (Register ''logs'' offModule (fst (Register ''prometheus'' okModule emptyRegistry)))"

definition failingRegistry :: Registry where
  "failingRegistry =
     fst (Register ''prometheus'' okModule (fst (Register ''plugins'' failingModule emptyRegistry)))"

text \<open>The default configuration with the plugin provider switched on.\<close>

definition demoConfig :: NexusConfig where
  "demoConfig =
     DefaultConfig\<lparr>Modules := (Modules DefaultConfig)
       \<lparr>Plugins := (Plugins (Modules DefaultConfig))\<lparr>Plugins_Enabled := True\<rparr>\<rparr>\<rparr>"

definition demoManifest :: Manifest where
  "demoManifest =
     \<lparr>APIVersion = ''v1'', Kind = ''Plugin'',
      Metadata = \<lparr>Metadata_Name = ''demo'', Vendor = [], Metadata_Version = [],
                   Metadata_Description = []\<rparr>,
      Spec = \<lparr>Command = ''/bin/demo'', Args = [], Env = [],
               Capabilities = \<lparr>Tools = [\<lparr>Tool_Name = ''restart'', Tool_Description = [],
                                          ReadOnly = False, Tool_Args = []\<rparr>]\<rparr>\<rparr>\<rparr>"

definition demoTool :: pluginTool where
  "demoTool = \<lparr>manifest = demoManifest,
               tool = \<lparr>Tool_Name = ''restart'', Tool_Description = [], ReadOnly = False,
                        Tool_Args = []\<rparr>\<rparr>"

definition demoModule :: Module where
  "demoModule = \<lparr>Module_cfg = Some demoConfig, manifests = [demoManifest],
                 tools = [''plugin/demo/restart'' \<mapsto> demoTool]\<rparr>"

text \<open>
  An environment: the directory \<open>plugins\<close> holds a file \<open>README.md\<close> and a
  subdirectory \<open>bad\<close> whose \<open>nexus.yaml\<close> is the text \<open>metadata: [\<close>, an unclosed
  flow sequence that the YAML decoder rejects. \<open>slashJoin\<close> agrees with \<open>filepath.Join\<close>
  on clean, non-empty elements.
\<close>

fun slashJoin :: "string list \<Rightarrow> string" where
  "slashJoin [] = []"
| "slashJoin [x] = x"
| "slashJoin (x # y # rest) = x @ ''/'' @ slashJoin (y # rest)"

definition demoSys :: "unit Sys" where
  "demoSys =
     \<lparr>ReadDir = (\<lambda>d. if d = ''plugins''
                     then Inr [\<lparr>Entry_Name = ''README.md'', IsDir = False\<rparr>,
                               \<lparr>Entry_Name = ''bad'', IsDir = True\<rparr>]
                     else Inl (''open '' @ d @ '': no such file or directory'')),
      ReadFile = (\<lambda>f. if f = ''plugins/bad/nexus.yaml'' then Inr ''metadata: [''
                      else Inl (''open '' @ f @ '': no such file or directory'')),
      Join = slashJoin,
      IsAbs = (\<lambda>p. HasPrefix p ''/''),
      Unmarshal_Manifest = (\<lambda>d. if d = ''metadata: [''
                                then Inl ''yaml: line 1: did not find expected node content''
                                else Inr demoManifest),
      Marshal = (\<lambda>t a. Inr t),
      CombinedOutput = (\<lambda>cmd. (''ok'', None)),
      TrimSpace = (\<lambda>s. s)\<rparr>"

text \<open>
  A configuration file that is well-formed YAML with one value of the wrong type
  (\<open>max_lines: many\<close>, a string for an \<open>int\<close> field):
  \<^verbatim>\<open>
  server:
    name: Other
    safe_mode: false
  modules:
    logs:
      max_bytes: -1
      max_lines: many
  \<close>
  On a type mismatch \<open>yaml.Unmarshal\<close> (yaml.v3) keeps decoding the rest of the
  document into the struct it was given and returns a \<open>*yaml.TypeError\<close> listing the
  values it skipped. \<open>demoDecoder\<close> is the decoder at this document: the three well-typed
  fields are written, the error is returned.
\<close>

definition brokenDocument :: string where
  "brokenDocument =
     ''server:'' @ [CHR 0x0A] @ ''  name: Other'' @ [CHR 0x0A] @ ''  safe_mode: false'' @ [CHR 0x0A]
     @ ''modules:'' @ [CHR 0x0A] @ ''  logs:'' @ [CHR 0x0A] @ ''    max_bytes: -1'' @ [CHR 0x0A]
     @ ''    max_lines: many'' @ [CHR 0x0A]"

definition demoReader :: reader where
  "demoReader path =
     (if path = ''nexus.yaml'' then Inr brokenDocument
      else Inl (''open '' @ path @ '': no such file or directory''))"

definition demoDecoder :: config_decoder where
  "demoDecoder data c =
     (if data = brokenDocument
      then (c\<lparr>Server := (Server c)\<lparr>Server_Name := ''Other'', SafeMode := False\<rparr>,
              Modules := (Modules c)\<lparr>Logs := (Logs (Modules c))\<lparr>Logs_MaxBytes := - 1\<rparr>\<rparr>\<rparr>,
            Some (''yaml: unmarshal errors:'' @ [CHR 0x0A]
                  @ ''  line 7: cannot unmarshal !!str `many` into int''))
      else (c, None))"

section \<open>Properties of the policy engine\<close>

lemma matchesAny_iff:
  "matchesAny Match ps v \<longleftrightarrow> (\<exists>pat \<in> set ps. Match pat v)"
  by (induction ps) auto

lemma matchesAnyTool_loop_iff:
  "matchesAnyTool_loop Match ps t q \<longleftrightarrow> (\<exists>pat \<in> set ps. Match pat t \<or> Match pat q)"
  by (induction ps) auto

lemma matchesAnyTool_iff:
  "matchesAnyTool Match ps module t \<longleftrightarrow>
     (\<exists>pat \<in> set ps. Match pat t \<or> Match pat (module @ ''/'' @ t))"
  by (simp add: matchesAnyTool_def matchesAnyTool_loop_iff)

lemma HasPrefix_iff: "HasPrefix s p \<longleftrightarrow> (\<exists>suf. s = p @ suf)"
  by (induction s p rule: HasPrefix.induct) auto

lemma Contains_iff: "Contains s sub \<longleftrightarrow> (\<exists>pre suf. s = pre @ sub @ suf)"
proof (induction s)
  case Nil
  then show ?case by auto
next
  case (Cons c cs)
  show ?case
  proof
    assume "Contains (c # cs) sub"
    then consider "HasPrefix (c # cs) sub" | "Contains cs sub" by auto
    then show "\<exists>pre suf. c # cs = pre @ sub @ suf"
    proof cases
      case 1
      then obtain suf where "c # cs = sub @ suf" by (auto simp: HasPrefix_iff)
      then have "c # cs = [] @ sub @ suf" by simp
      then show ?thesis by blast
    next
      case 2
      then obtain pre suf where "cs = pre @ sub @ suf" using Cons.IH by auto
      then have "c # cs = (c # pre) @ sub @ suf" by simp
      then show ?thesis by blast
    qed
  next
    assume "\<exists>pre suf. c # cs = pre @ sub @ suf"
    then obtain pre suf where eq: "c # cs = pre @ sub @ suf" by auto
    show "Contains (c # cs) sub"
    proof (cases pre)
      case Nil
      with eq have "HasPrefix (c # cs) sub" by (auto simp: HasPrefix_iff)
      then show ?thesis by simp
    next
      case (Cons a pre')
      with eq have "cs = pre' @ sub @ suf" by simp
      then have "Contains cs sub" using Cons.IH by auto
      then show ?thesis by simp
    qed
  qed
qed

lemma containsKeyword_iff:
  "containsKeyword lower kws \<longleftrightarrow> (\<exists>kw \<in> set kws. Contains lower kw)"
  by (induction kws) auto

lemma ToLower_append: "ToLower (a @ b) = ToLower a @ ToLower b"
  by (simp add: ToLower_def)

text \<open>
  Claim C1. Whenever the module matches some deny-module pattern, or the tool matches
  some deny-tool pattern by its bare name or by its qualified form \<open>module/tool\<close>,
  \<open>Evaluate\<close> answers \<open>Deny\<close>. Nothing is assumed about the allow and confirm lists nor
  about safe mode, so the answer holds whatever else matches (in particular with safe
  mode off, or with a tool name free of mutating keywords).
\<close>

theorem deny_precedence:
  assumes "(\<exists>pat \<in> set (DenyModules (cfg p)). Match pat module)
         \<or> (\<exists>pat \<in> set (DenyTools (cfg p)).
               Match pat tname \<or> Match pat (module @ ''/'' @ tname))"
  shows "Evaluate Match p module tname = Deny"
  using assms unfolding Evaluate_def matchesAny_iff matchesAnyTool_iff by auto

theorem deny_precedence_witness:
  "Evaluate literalMatch
     \<lparr>cfg = \<lparr>AllowModules = [''kubernetes''], DenyModules = [],
             AllowTools = [''k8s_list_pods''], DenyTools = [''k8s_list_pods''],
             ConfirmTools = [''k8s_list_pods'']\<rparr>,
      safeMode = False\<rparr> ''kubernetes'' ''k8s_list_pods'' = Deny"
  by (rule deny_precedence) (simp add: literalMatch_def)

text \<open>
  Claim C2. With safe mode on, a tool name that contains one of the seven keywords in
  any mix of upper and lower case (a segment \<open>w\<close> of the name whose lower-casing is the
  keyword) is denied, for every module and every pattern list: an allow pattern that
  matches changes nothing.
\<close>

theorem safe_mode_denies_mutating:
  assumes "safeMode p"
    and "kw \<in> set [''delete'', ''update'', ''scale'', ''write'', ''create'', ''apply'', ''patch'']"
    and "tname = pre @ w @ suf"
    and "ToLower w = kw"
  shows "Evaluate Match p module tname = Deny"
proof -
  have "ToLower tname = ToLower pre @ kw @ ToLower suf"
    using assms(3,4) by (simp add: ToLower_append)
  then have "Contains (ToLower tname) kw"
    unfolding Contains_iff by blast
  moreover have "kw \<in> set sensitive"
    using assms(2) by (simp add: sensitive_def)
  ultimately have "isSensitiveTool tname"
    unfolding isSensitiveTool_def Let_def containsKeyword_iff by blast
  with assms(1) show ?thesis
    by (simp add: Evaluate_def)
qed

theorem safe_mode_denies_mutating_witness:
  "Evaluate literalMatch
     \<lparr>cfg = \<lparr>AllowModules = [''kubernetes''], DenyModules = [],
             AllowTools = [''k8s_DeLeTe_pod''], DenyTools = [], ConfirmTools = []\<rparr>,
      safeMode = True\<rparr> ''kubernetes'' ''k8s_DeLeTe_pod'' = Deny"
proof -
  have low: "ToLower ''DeLeTe'' = ''delete''"
    by code_simp
  show ?thesis
    by (rule safe_mode_denies_mutating
          [where kw = "''delete''" and pre = "''k8s_''" and w = "''DeLeTe''" and suf = "''_pod''"])
       (simp_all add: low)
qed

text \<open>
  Claim C4. When the allow-modules list or the allow-tools list is non-empty, a pair
  whose module matches no allow-module pattern and whose tool matches no allow-tool
  pattern, bare or qualified, is denied (whatever the deny lists and safe mode say: every
  earlier branch of \<open>Evaluate\<close> answers \<open>Deny\<close> as well).
\<close>

theorem allowlist_default_deny:
  assumes "AllowModules (cfg p) \<noteq> [] \<or> AllowTools (cfg p) \<noteq> []"
    and "\<forall>pat \<in> set (AllowModules (cfg p)). \<not> Match pat module"
    and "\<forall>pat \<in> set (AllowTools (cfg p)).
           \<not> Match pat tname \<and> \<not> Match pat (module @ ''/'' @ tname)"
  shows "Evaluate Match p module tname = Deny"
  using assms unfolding Evaluate_def matchesAny_iff matchesAnyTool_iff hasAllowList_def
  by auto

theorem allowlist_default_deny_witness:
  "Evaluate literalMatch
     \<lparr>cfg = \<lparr>AllowModules = [], DenyModules = [], AllowTools = [''prometheus_query_metric''],
             DenyTools = [], ConfirmTools = [''k8s_list_pods'']\<rparr>,
      safeMode = False\<rparr> ''kubernetes'' ''k8s_list_pods'' = Deny"
  by (rule allowlist_default_deny) (simp_all add: literalMatch_def)

section \<open>Properties of output trimming\<close>

text \<open>
  Claim C5. For a positive \<open>maxBytes\<close>: an output of at most \<open>maxBytes\<close> bytes (the limit
  itself included) comes back unchanged; an output longer by one byte or more comes back
  as its first \<open>maxBytes\<close> bytes, exactly that many, followed by the marker
  \<open>"\n... truncated"\<close>.
\<close>

theorem trimOutput_boundaries:
  assumes "0 < maxBytes"
  shows "(int (length output) \<le> maxBytes \<longrightarrow> trimOutput output maxBytes = output)
       \<and> (maxBytes + 1 \<le> int (length output) \<longrightarrow>
            trimOutput output maxBytes
              = take (nat maxBytes) output @ [CHR 0x0A] @ ''... truncated''
          \<and> int (length (take (nat maxBytes) output)) = maxBytes)"
  using assms by (auto simp: trimOutput_def truncation_marker_def Let_def)

theorem trimOutput_boundaries_witness:
  "trimOutput ''abcd'' 4 = ''abcd''
   \<and> trimOutput ''abcde'' 4 = ''abcd'' @ [CHR 0x0A] @ ''... truncated''"
  using trimOutput_boundaries [of 4 "''abcd''"] trimOutput_boundaries [of 4 "''abcde''"]
  by simp

text \<open>
  Claim C9. With \<open>maxBytes\<close> zero or negative, \<open>trimOutput\<close> returns its input unchanged,
  whatever its length: a non-positive limit switches truncation off.
\<close>

theorem trimOutput_nonpositive:
  assumes "maxBytes \<le> 0"
  shows "trimOutput output maxBytes = output"
  using assms by (simp add: trimOutput_def)

theorem trimOutput_nonpositive_witness:
  "trimOutput ''abcde'' 0 = ''abcde'' \<and> trimOutput ''abcde'' (- 3) = ''abcde''"
  using trimOutput_nonpositive [of 0 "''abcde''"] trimOutput_nonpositive [of "- 3" "''abcde''"]
  by simp

section \<open>Properties of the registry\<close>

text \<open>
  Claim C8. Two calls of \<open>Register\<close> with the same name: the second one panics with the
  message \<open>module already registered: <name>\<close> and leaves the package state as the
  first call left it. When the name was free before the first call, that call does not
  panic and the map still holds the first provider under the name afterwards.
\<close>

theorem Register_twice_panics:
  "case Register name m1 r of (r1, p1) \<Rightarrow>
     (case Register name m2 r1 of (r2, p2) \<Rightarrow>
        p2 = Some (''module already registered: '' @ name) \<and> r2 = r1
        \<and> (modules r name = None \<longrightarrow> p1 = None \<and> modules r2 name = Some m1))"
  by (auto simp: Register_def split: option.splits)

theorem Register_twice_panics_witness:
  "snd (Register ''test'' (testModule False) (fst (Register ''test'' (testModule True) emptyRegistry)))
     = Some ''module already registered: test''
   \<and> modules (fst (Register ''test'' (testModule False)
                  (fst (Register ''test'' (testModule True) emptyRegistry)))) ''test''
     = Some (testModule True)"
  using Register_twice_panics [where name = "''test''" and ?m1.0 = "testModule True"
          and r = emptyRegistry and ?m2.0 = "testModule False"]
  by (simp add: emptyRegistry_def split: prod.splits)

lemma initLoop_all_succeed:
  assumes "\<forall>k \<in> set ks. \<forall>md. ms k = Some md \<longrightarrow> \<not> disabled md c \<longrightarrow> Init md c = None"
  shows "initLoop c ms ks =
           (filter (\<lambda>k. case ms k of Some md \<Rightarrow> \<not> disabled md c | None \<Rightarrow> False) ks, None)"
  using assms by (induction ks) (auto split: option.splits)

lemma loadedLoop_mset:
  "mset (loadedLoop c ms ks) =
     image_mset (\<lambda>k. the (ms k))
       (filter_mset (\<lambda>k. case ms k of Some md \<Rightarrow> \<not> disabled md c | None \<Rightarrow> False) (mset ks))"
  by (induction ks) (auto split: option.splits)

lemma enumerates_mset:
  assumes "enumerates ks ms" and "enumerates ks' ms"
  shows "mset ks = mset ks'"
  using assms by (simp add: enumerates_def set_eq_iff_mset_eq_distinct [symmetric])

lemma count_list_filter_distinct:
  "distinct ks \<Longrightarrow> count_list (filter P ks) k = (if k \<in> set ks \<and> P k then 1 else 0)"
  by (induction ks) auto

lemma goodRegistry_eq:
  "goodRegistry =
     \<lparr>modules = [''prometheus'' \<mapsto> okModule, ''logs'' \<mapsto> offModule], loadOnce = False\<rparr>"
  by (simp add: goodRegistry_def Register_def emptyRegistry_def)

lemma failingRegistry_eq:
  "failingRegistry =
     \<lparr>modules = [''plugins'' \<mapsto> failingModule, ''prometheus'' \<mapsto> okModule], loadOnce = False\<rparr>"
  by (simp add: failingRegistry_def Register_def emptyRegistry_def)

lemma disabled_examples:
  "\<not> disabled okModule demoConfig" "disabled offModule demoConfig"
  "\<not> disabled failingModule demoConfig"
  by (simp_all add: disabled_def okModule_def offModule_def failingModule_def Module_Enabled_def
        demoConfig_def DefaultConfig_def)

lemma Init_examples:
  "Init okModule c = None" "Init offModule c = None"
  "Init failingModule c = Some ''duplicate plugin tool name: plugin/demo/restart''"
  by (simp_all add: okModule_def offModule_def failingModule_def)

text \<open>
  Claim C6, as the code has it. Start from a state whose \<open>sync.Once\<close> has not run and
  call \<open>LoadModules\<close> twice with the same configuration, each \<open>range\<close> loop visiting
  the keys of the map in an order of its own. If \<open>Init\<close> returns \<open>nil\<close> for every
  provider that is not disabled, then both calls return a slice and no error, the two
  slices hold the same providers (equal as multisets; the order may differ), and over both
  calls \<open>Init\<close> has been invoked exactly once on every registered provider that is not
  disabled and never on a disabled one.
\<close>

theorem LoadModules_twice:
  assumes fresh: "\<not> loadOnce r"
    and e1: "enumerates order1 (modules r)"
    and e2: "enumerates order2 (modules r)"
    and e4: "enumerates order4 (modules r)"
    and ok: "\<forall>name md. modules r name = Some md \<longrightarrow> \<not> disabled md c \<longrightarrow> Init md c = None"
    and first: "LoadModules order1 order2 c r = (r1, inits1, res1)"
    and second: "LoadModules order3 order4 c r1 = (r2, inits2, res2)"
  shows "\<exists>loaded1 loaded2.
           res1 = Inr loaded1 \<and> res2 = Inr loaded2 \<and> mset loaded1 = mset loaded2
           \<and> (\<forall>name md. modules r name = Some md \<longrightarrow>
                 count_list (inits1 @ inits2) name = (if disabled md c then 0 else 1))"
proof -
  let ?en = "\<lambda>k. case modules r k of Some md \<Rightarrow> \<not> disabled md c | None \<Rightarrow> False"
  have il: "initLoop c (modules r) order1 = (filter ?en order1, None)"
    using ok by (intro initLoop_all_succeed) blast
  from first fresh il have r1: "r1 = r\<lparr>loadOnce := True\<rparr>" and i1: "inits1 = filter ?en order1"
    and l1: "res1 = Inr (loadedLoop c (modules r) order2)"
    by (auto simp: LoadModules_def)
  from second r1 have i2: "inits2 = []" and l2: "res2 = Inr (loadedLoop c (modules r) order4)"
    by (auto simp: LoadModules_def)
  have same: "mset (loadedLoop c (modules r) order2) = mset (loadedLoop c (modules r) order4)"
    unfolding loadedLoop_mset using enumerates_mset [OF e2 e4] by simp
  have cnt: "count_list (inits1 @ inits2) name = (if disabled md c then 0 else 1)"
    if "modules r name = Some md" for name md
  proof -
    have "name \<in> set order1" using that e1 by (auto simp: enumerates_def)
    moreover have "distinct order1" using e1 by (simp add: enumerates_def)
    ultimately show ?thesis
      using that by (simp add: i1 i2 count_list_filter_distinct)
  qed
  show ?thesis using l1 l2 same cnt by blast
qed

theorem LoadModules_twice_witness:
  "\<exists>loaded1 loaded2.
     (Inr [okModule] :: error + NexusModule list) = Inr loaded1
     \<and> (Inr [okModule] :: error + NexusModule list) = Inr loaded2 \<and> mset loaded1 = mset loaded2
     \<and> (\<forall>name md. modules goodRegistry name = Some md \<longrightarrow>
           count_list ([''prometheus''] @ []) name = (if disabled md demoConfig then 0 else 1))"
proof -
  have fresh: "\<not> loadOnce goodRegistry"
    by (simp add: goodRegistry_eq)
  have e1: "enumerates [''logs'', ''prometheus''] (modules goodRegistry)"
    by (auto simp: goodRegistry_eq enumerates_def)
  have e2: "enumerates [''prometheus'', ''logs''] (modules goodRegistry)"
    by (auto simp: goodRegistry_eq enumerates_def)
  have ok: "\<forall>name md. modules goodRegistry name = Some md \<longrightarrow> \<not> disabled md demoConfig
              \<longrightarrow> Init md demoConfig = None"
    by (auto simp: goodRegistry_eq okModule_def offModule_def split: if_splits)
  have first:
    "LoadModules [''logs'', ''prometheus''] [''prometheus'', ''logs''] demoConfig goodRegistry
       = (goodRegistry\<lparr>loadOnce := True\<rparr>, [''prometheus''], Inr [okModule])"
    by (simp add: LoadModules_def goodRegistry_eq disabled_examples Init_examples)
  have second:
    "LoadModules [''prometheus'', ''logs''] [''logs'', ''prometheus''] demoConfig
         (goodRegistry\<lparr>loadOnce := True\<rparr>)
       = (goodRegistry\<lparr>loadOnce := True\<rparr>, [], Inr [okModule])"
    by (simp add: LoadModules_def goodRegistry_eq disabled_examples Init_examples)
  show ?thesis
    by (rule LoadModules_twice [OF fresh e1 e2 e1 ok first second])
qed

text \<open>
  Claim C6 as stated does not hold when an \<open>Init\<close> fails. With \<open>plugins\<close> (whose
  \<open>Init\<close> returns an error) visited before \<open>prometheus\<close> (enabled, \<open>Init\<close> fine): the
  first call stops at the failure and returns the error and no slice, the second call
  returns both providers and no error, and \<open>Init\<close> of \<open>prometheus\<close> has been invoked
  in neither call.
\<close>

theorem LoadModules_twice_counterexample:
  "\<not> loadOnce failingRegistry
   \<and> enumerates [''plugins'', ''prometheus''] (modules failingRegistry)
   \<and> \<not> disabled okModule demoConfig
   \<and> LoadModules [''plugins'', ''prometheus''] [''plugins'', ''prometheus''] demoConfig
         failingRegistry
       = (failingRegistry\<lparr>loadOnce := True\<rparr>, [''plugins''],
          Inl ''failed to init module plugins: duplicate plugin tool name: plugin/demo/restart'')
   \<and> LoadModules [''plugins'', ''prometheus''] [''plugins'', ''prometheus''] demoConfig
         (failingRegistry\<lparr>loadOnce := True\<rparr>)
       = (failingRegistry\<lparr>loadOnce := True\<rparr>, [], Inr [failingModule, okModule])"
  by (auto simp: LoadModules_def failingRegistry_eq disabled_examples Init_examples
        enumerates_def)

section \<open>Properties of the plugin provider\<close>

text \<open>
  Claim C7. A provider that has been initialised with a configuration whose safe-mode
  flag is on, called for a tool of its table that is not marked read-only, starts no
  child process and returns an error result: \<open>tool blocked in safe mode\<close> (or
  \<open>plugins module is disabled\<close>, when the provider is switched off). \<open>HandleCall\<close> takes no
  policy decision as input, so the refusal does not depend on one.
\<close>

theorem safe_mode_blocks_plugin_call:
  assumes "Module_cfg m = Some c"
    and "SafeMode (Server c)"
    and "tools m name = Some pt"
    and "\<not> ReadOnly (tool pt)"
  shows "Module_HandleCall sys m name args =
           ([], Returned (ToolResultError
                  (if Plugins_Enabled (Plugins (Modules c)) then ''tool blocked in safe mode''
                   else ''plugins module is disabled'')))"
  using assms by (simp add: Module_HandleCall_def)

theorem safe_mode_blocks_plugin_call_witness:
  "Module_HandleCall demoSys demoModule ''plugin/demo/restart'' ()
   = ([], Returned (ToolResultError ''tool blocked in safe mode''))"
proof -
  have 1: "Module_cfg demoModule = Some demoConfig"
    by (simp add: demoModule_def)
  have 2: "SafeMode (Server demoConfig)"
    by (simp add: demoConfig_def DefaultConfig_def)
  have 3: "tools demoModule ''plugin/demo/restart'' = Some demoTool"
    by (simp add: demoModule_def)
  have 4: "\<not> ReadOnly (tool demoTool)"
    by (simp add: demoTool_def)
  have 5: "Plugins_Enabled (Plugins (Modules demoConfig))"
    by (simp add: demoConfig_def)
  show ?thesis
    using safe_mode_blocks_plugin_call [OF 1 2 3 4, of demoSys "()"] 5 by simp
qed

lemma loadLoop_unparsable:
  assumes "entry \<in> set entries" and "IsDir entry"
    and "ReadFile sys (Join sys [dir, Entry_Name entry, ManifestName]) = Inr data"
    and "Unmarshal_Manifest sys data = Inl perr"
  shows "\<exists>err. loadLoop sys dir entries acc = Inl err"
  using assms
proof (induction entries arbitrary: acc)
  case Nil
  then show ?case by simp
next
  case (Cons e rest)
  show ?case
  proof (cases "e = entry")
    case True
    then show ?thesis using Cons.prems by (simp add: Let_def)
  next
    case False
    then have "entry \<in> set rest" using Cons.prems(1) by simp
    then have "\<exists>err. loadLoop sys dir rest acc' = Inl err" for acc'
      using Cons.IH Cons.prems(2-4) by blast
    then show ?thesis by (auto simp: Let_def split: sum.splits)
  qed
qed

lemma LoadManifests_demo:
  "LoadManifests demoSys ''plugins''
     = Inl ''failed to parse plugins/bad/nexus.yaml: yaml: line 1: did not find expected node content''"
  by (simp add: LoadManifests_def demoSys_def ManifestName_def)

text \<open>
  Claim C3, as the code has it. When the plugins directory lists a subdirectory whose
  \<open>nexus.yaml\<close> can be read but does not parse, \<open>LoadManifests\<close> fails as a whole: it
  returns an error and no manifest. \<open>Init\<close> of an enabled plugin provider reading that
  directory does not pass the error on: it logs the warning
  \<open>failed to load plugin manifests\<close> and returns \<open>nil\<close>, with the configuration stored
  and the manifest list and tool table left as they were.
\<close>

theorem unparsable_manifest_not_reported:
  assumes "ReadDir sys dir = Inr entries"
    and "entry \<in> set entries" and "IsDir entry"
    and "ReadFile sys (Join sys [dir, Entry_Name entry, ManifestName]) = Inr data"
    and "Unmarshal_Manifest sys data = Inl perr"
    and "Plugins_Enabled (Plugins (Modules c))" and "Dir (Plugins (Modules c)) = dir"
  shows "(\<exists>err. LoadManifests sys dir = Inl err)
       \<and> Module_Init sys c m
           = (m\<lparr>Module_cfg := Some c\<rparr>, None, [Warn ''failed to load plugin manifests''])"
proof -
  obtain err where "LoadManifests sys dir = Inl err"
    using loadLoop_unparsable [OF assms(2-5)] assms(1) by (auto simp: LoadManifests_def)
  then show ?thesis
    using assms(6,7) by (simp add: Module_Init_def)
qed

theorem unparsable_manifest_not_reported_witness:
  "(\<exists>err. LoadManifests demoSys ''plugins'' = Inl err)
   \<and> Module_Init demoSys demoConfig Module_New
       = (Module_New\<lparr>Module_cfg := Some demoConfig\<rparr>, None,
          [Warn ''failed to load plugin manifests''])"
proof (rule unparsable_manifest_not_reported)
  show "ReadDir demoSys ''plugins'' = Inr [\<lparr>Entry_Name = ''README.md'', IsDir = False\<rparr>,
                                           \<lparr>Entry_Name = ''bad'', IsDir = True\<rparr>]"
    by (simp add: demoSys_def)
  show "\<lparr>Entry_Name = ''bad'', IsDir = True\<rparr>
          \<in> set [\<lparr>Entry_Name = ''README.md'', IsDir = False\<rparr>,
                  \<lparr>Entry_Name = ''bad'', IsDir = True\<rparr>]"
    by simp
  show "IsDir \<lparr>Entry_Name = ''bad'', IsDir = True\<rparr>"
    by simp
  show "ReadFile demoSys
          (Join demoSys [''plugins'', Entry_Name \<lparr>Entry_Name = ''bad'', IsDir = True\<rparr>,
                         ManifestName]) = Inr ''metadata: [''"
    by (simp add: demoSys_def ManifestName_def)
  show "Unmarshal_Manifest demoSys ''metadata: [''
          = Inl ''yaml: line 1: did not find expected node content''"
    by (simp add: demoSys_def)
  show "Plugins_Enabled (Plugins (Modules demoConfig))"
    by (simp add: demoConfig_def)
  show "Dir (Plugins (Modules demoConfig)) = ''plugins''"
    by (simp add: demoConfig_def DefaultConfig_def)
qed

text \<open>
  Claim C3 as stated does not hold: in the environment \<open>demoSys\<close> the manifest of
  \<open>plugins/bad\<close> is present and fails to parse, the loader returns the parse error, and
  \<open>Init\<close> of a new, enabled plugin provider returns no error and an empty provider.
\<close>

theorem unparsable_manifest_counterexample:
  "LoadManifests demoSys ''plugins''
     = Inl ''failed to parse plugins/bad/nexus.yaml: yaml: line 1: did not find expected node content''
   \<and> Module_Init demoSys demoConfig Module_New
     = (Module_New\<lparr>Module_cfg := Some demoConfig\<rparr>, None,
        [Warn ''failed to load plugin manifests''])
   \<and> manifests (Module_New\<lparr>Module_cfg := Some demoConfig\<rparr>) = []
   \<and> tools (Module_New\<lparr>Module_cfg := Some demoConfig\<rparr>) ''plugin/bad/restart'' = None"
  by (simp add: Module_Init_def LoadManifests_demo Module_New_def demoConfig_def DefaultConfig_def)

section \<open>Properties of configuration loading\<close>

lemma LoadConfig_never_nil: "fst (LoadConfig rd dec path) \<noteq> None"
  by (simp add: LoadConfig_def split: sum.splits prod.splits option.splits)

lemma LoadConfig_read_error:
  "rd path = Inl e \<Longrightarrow> LoadConfig rd dec path = (Some DefaultConfig, Some e)"
  by (simp add: LoadConfig_def)

lemma LoadConfig_decode_error:
  "rd path = Inr data \<Longrightarrow> dec data DefaultConfig = (c', Some e)
     \<Longrightarrow> LoadConfig rd dec path = (Some c', Some e)"
  by (simp add: LoadConfig_def)

text \<open>
  Claim C10 at the file \<open>brokenDocument\<close>. \<open>LoadConfig\<close> returns a configuration and
  the decoder's error, but the configuration is the struct as the decoder left it, without
  \<open>applyDefaults\<close>: the server name is \<open>Other\<close>, safe mode is off and the byte limit of
  the logs module is \<open>-1\<close>. The claim promises the defaults there (\<open>Nexus\<close>, positive
  limits), and \<open>main\<close> logs \<open>failed to load config, using defaults\<close> on this path.
  (\<open>LoadConfig_never_nil\<close> and \<open>LoadConfig_read_error\<close> above are the parts of the claim
  that hold: the pointer is never \<open>nil\<close>, and an unreadable file gives exactly
  \<open>DefaultConfig\<close>.)
\<close>

theorem LoadConfig_partial_decode:
  "LoadConfig demoReader demoDecoder ''nexus.yaml''
     = (Some (DefaultConfig
          \<lparr>Server := (Server DefaultConfig)\<lparr>Server_Name := ''Other'', SafeMode := False\<rparr>,
           Modules := (Modules DefaultConfig)
             \<lparr>Logs := (Logs (Modules DefaultConfig))\<lparr>Logs_MaxBytes := - 1\<rparr>\<rparr>\<rparr>),
        Some (''yaml: unmarshal errors:'' @ [CHR 0x0A]
              @ ''  line 7: cannot unmarshal !!str `many` into int''))
   \<and> Server_Name (Server (the (fst (LoadConfig demoReader demoDecoder ''nexus.yaml''))))
        \<noteq> ''Nexus''
   \<and> \<not> SafeMode (Server (the (fst (LoadConfig demoReader demoDecoder ''nexus.yaml''))))
   \<and> Logs_MaxBytes (Logs (Modules (the (fst (LoadConfig demoReader demoDecoder ''nexus.yaml'')))))
        \<le> 0"
  by (simp add: LoadConfig_def demoReader_def demoDecoder_def)

end
